theory Spec2Isabelle
  imports Main "HOL-Library.Word"
begin

unbundle bit_operations_syntax

section \<open>The NanoCBOR decoder (src/src/decoder.c)\<close>

text \<open>
  The decoder walks a caller-supplied byte buffer through pointers. Pointers are modelled
  as integer addresses and the machine's memory as a total store from addresses to bytes.
  The buffer of an iterator is the address range from \<open>start\<close> up to, not including,
  \<open>endp\<close>. C leaves a read outside the buffer undefined; here such a read returns whatever
  the store holds at that address, and every theorem below holds for every store.

  The C functions write their results through pointer parameters and leave some locals
  uninitialised. Each function of the model therefore takes the previous content of every
  object it may write or read before writing, and returns the new content next to the
  \<open>int\<close> result code. The host is little-endian with a 64-bit \<open>size_t\<close>, as the casts
  of \<open>uint32_t*\<close> and \<open>size_t*\<close> to \<open>uint64_t*\<close> in the source presuppose; what such
  a cast overwrites beyond the object it points to is not modelled.
\<close>

type_synonym addr = int
type_synonym memory = "addr \<Rightarrow> 8 word"

subsection \<open>Declarations of nanocbor/nanocbor.h\<close>

text \<open>
  Modelled from the spec: the header nanocbor/nanocbor.h (the iterator structure, the masks
  of the initial byte, the argument selectors, the simple values, the iterator flags and
  the error codes) is not part of the sources at hand. The spec gives the layout of the
  initial byte (major type in the top three bits, selector in the low five), the eight
  major types, the selectors 24 to 27, the bytes 0xF4, 0xF5 and 0xF6 of false, true and
  null, the two flags and four errors that are negative and distinct.
\<close>

record nanocbor_value =
  start :: addr
  endp :: addr
  remaining :: "32 word"
  flags :: "8 word"

definition NANOCBOR_TYPE_OFFSET :: nat where "NANOCBOR_TYPE_OFFSET = 5"
definition NANOCBOR_TYPE_MASK :: "8 word" where "NANOCBOR_TYPE_MASK = 0xE0"
definition NANOCBOR_VALUE_MASK :: "8 word" where "NANOCBOR_VALUE_MASK = 0x1F"

definition NANOCBOR_MASK_UINT :: "8 word" where "NANOCBOR_MASK_UINT = 0x00"
definition NANOCBOR_MASK_NINT :: "8 word" where "NANOCBOR_MASK_NINT = 0x20"
definition NANOCBOR_MASK_BSTR :: "8 word" where "NANOCBOR_MASK_BSTR = 0x40"
definition NANOCBOR_MASK_TSTR :: "8 word" where "NANOCBOR_MASK_TSTR = 0x60"
definition NANOCBOR_MASK_ARR :: "8 word" where "NANOCBOR_MASK_ARR = 0x80"
definition NANOCBOR_MASK_MAP :: "8 word" where "NANOCBOR_MASK_MAP = 0xA0"
definition NANOCBOR_MASK_TAG :: "8 word" where "NANOCBOR_MASK_TAG = 0xC0"
definition NANOCBOR_MASK_FLOAT :: "8 word" where "NANOCBOR_MASK_FLOAT = 0xE0"

definition NANOCBOR_SIMPLE_FALSE :: "8 word" where "NANOCBOR_SIMPLE_FALSE = 20"
definition NANOCBOR_SIMPLE_TRUE :: "8 word" where "NANOCBOR_SIMPLE_TRUE = 21"
definition NANOCBOR_SIMPLE_NULL :: "8 word" where "NANOCBOR_SIMPLE_NULL = 22"

definition NANOCBOR_INT_VAL_UINT8 :: "8 word" where "NANOCBOR_INT_VAL_UINT8 = 24"
definition NANOCBOR_INT_VAL_UINT16 :: "8 word" where "NANOCBOR_INT_VAL_UINT16 = 25"
definition NANOCBOR_INT_VAL_UINT32 :: "8 word" where "NANOCBOR_INT_VAL_UINT32 = 26"
definition NANOCBOR_INT_VAL_UINT64 :: "8 word" where "NANOCBOR_INT_VAL_UINT64 = 27"

definition NANOCBOR_DECODER_FLAG_CONTAINER :: "8 word" where
  "NANOCBOR_DECODER_FLAG_CONTAINER = 0x01"
definition NANOCBOR_DECODER_FLAG_INDEFINITE :: "8 word" where
  "NANOCBOR_DECODER_FLAG_INDEFINITE = 0x02"

definition NANOCBOR_OK :: int where "NANOCBOR_OK = 0"
definition NANOCBOR_ERR_OVERFLOW :: int where "NANOCBOR_ERR_OVERFLOW = - 1"
definition NANOCBOR_ERR_INVALID_TYPE :: int where "NANOCBOR_ERR_INVALID_TYPE = - 2"
definition NANOCBOR_ERR_END :: int where "NANOCBOR_ERR_END = - 3"
definition NANOCBOR_ERR_RECURSION :: int where "NANOCBOR_ERR_RECURSION = - 4"

subsection \<open>Configuration (include/nanocbor/config.h)\<close>

definition NANOCBOR_RECURSION_MAX :: nat where "NANOCBOR_RECURSION_MAX = 10"

text \<open>\<open>SIZE_MAX == UINT64_MAX\<close> on the host modelled here.\<close>

definition NANOCBOR_INT_VAL_SIZE :: "8 word" where
  "NANOCBOR_INT_VAL_SIZE = NANOCBOR_INT_VAL_UINT64"

definition UINT32_MAX :: "32 word" where "UINT32_MAX = 0xFFFFFFFF"
definition INT32_MAX :: "32 word" where "INT32_MAX = 0x7FFFFFFF"

subsection \<open>Initialisation and type\<close>

text \<open>\<open>nanocbor_decoder_init\<close> sets three of the four fields: \<open>remaining\<close> keeps
  whatever the caller's structure held.\<close>

definition nanocbor_decoder_init :: "nanocbor_value \<Rightarrow> addr \<Rightarrow> nat \<Rightarrow> nanocbor_value" where
  "nanocbor_decoder_init val buf len =
     val\<lparr>start := buf, endp := buf + int len, flags := 0\<rparr>"

definition get_type :: "memory \<Rightarrow> nanocbor_value \<Rightarrow> 8 word" where
  "get_type mem val = mem (start val) AND NANOCBOR_TYPE_MASK"

definition nanocbor_get_type :: "memory \<Rightarrow> nanocbor_value \<Rightarrow> 8 word" where
  "nanocbor_get_type mem val = drop_bit NANOCBOR_TYPE_OFFSET (get_type mem val)"

definition nanocbor_at_end :: "memory \<Rightarrow> nanocbor_value \<Rightarrow> bool \<times> nanocbor_value" where
  "nanocbor_at_end mem it =
     (if flags it AND NANOCBOR_DECODER_FLAG_CONTAINER \<noteq> 0 then
        if flags it AND NANOCBOR_DECODER_FLAG_INDEFINITE \<noteq> 0 \<and> mem (start it) = 0xFF
        then (True, it\<lparr>start := start it + 1\<rparr>)
        else (remaining it = 0, it)
      else (start it \<ge> endp it, it))"

subsection \<open>The header parser\<close>

text \<open>The bytes at \<open>a\<close>, \<open>a + 1\<close>, ..., \<open>a + n - 1\<close> of the store.\<close>

fun load_bytes :: "memory \<Rightarrow> addr \<Rightarrow> nat \<Rightarrow> 8 word list" where
  "load_bytes mem a 0 = []"
| "load_bytes mem a (Suc n) = mem a # load_bytes mem (a + 1) n"

text \<open>\<open>be64toh\<close> on the bytes of a \<open>uint64_t\<close> in memory order: the first byte is the
  most significant.\<close>

definition be64toh :: "8 word list \<Rightarrow> 64 word" where
  "be64toh bs = foldl (\<lambda>acc b. push_bit 8 acc OR ucast b) 0 bs"

text \<open>\<open>memcpy(value, &tmp, bytes)\<close> on a little-endian host: the \<open>bytes\<close> low-order
  bytes of \<open>*value\<close> are replaced by those of \<open>tmp\<close>, the others keep their content.\<close>

definition memcpy_low :: "nat \<Rightarrow> 64 word \<Rightarrow> 64 word \<Rightarrow> 64 word" where
  "memcpy_low bytes tmp val = (val AND NOT (mask (8 * bytes))) OR (tmp AND mask (8 * bytes))"

text \<open>
  \<open>_get_uint64\<close>. The result pairs the return code with the content of \<open>*value\<close> after
  the call. The code passes 26 or 27 for \<open>max\<close>, so that \<open>bytes\<close> is 1, 2, 4 or 8 where
  it is used; the copy into \<open>tmp\<close> puts the argument's bytes last in an all-zero
  \<open>uint64_t\<close>.
\<close>

definition get_uint64 ::
  "memory \<Rightarrow> nanocbor_value \<Rightarrow> 64 word \<Rightarrow> 8 word \<Rightarrow> 8 word \<Rightarrow> int \<times> 64 word" where
  "get_uint64 mem cvalue val maxw type =
     (let ctype = get_type mem cvalue;
          bytelen = unat (mem (start cvalue) AND NANOCBOR_VALUE_MASK)
      in if type \<noteq> ctype then (NANOCBOR_ERR_INVALID_TYPE, val)
         else if bytelen < 24 then (1, of_nat bytelen)
         else if bytelen > unat maxw then (NANOCBOR_ERR_OVERFLOW, val)
         else
           let bytes = 2 ^ (bytelen - 24)
           in if start cvalue + int bytes > endp cvalue then (NANOCBOR_ERR_END, val)
              else
                let tmp = be64toh (replicate (8 - bytes) 0 @
                                   load_bytes mem (start cvalue + 1) bytes)
                in (1 + int bytes, memcpy_low bytes tmp val))"

text \<open>\<open>_get_nint32\<close>: \<open>tmp0\<close> is the content of the uninitialised local \<open>tmp\<close>.\<close>

definition get_nint32 ::
  "memory \<Rightarrow> nanocbor_value \<Rightarrow> 32 word \<Rightarrow> 32 word \<Rightarrow> 8 word \<Rightarrow> int \<times> 32 word" where
  "get_nint32 mem cvalue val tmp0 type =
     (let (res, t) = get_uint64 mem cvalue (ucast tmp0) NANOCBOR_INT_VAL_UINT32 type;
          tmp = (ucast t :: 32 word)
      in if tmp \<le> INT32_MAX then (res, - tmp - 1)
         else (NANOCBOR_ERR_OVERFLOW, val))"

definition advance :: "nanocbor_value \<Rightarrow> int \<Rightarrow> nanocbor_value" where
  "advance cvalue res = cvalue\<lparr>start := start cvalue + res, remaining := remaining cvalue - 1\<rparr>"

definition advance_if :: "nanocbor_value \<Rightarrow> int \<Rightarrow> int \<times> nanocbor_value" where
  "advance_if cvalue res = (if res > 0 then (res, advance cvalue res) else (res, cvalue))"

subsection \<open>Typed accessors\<close>

text \<open>Each accessor returns the result code, the iterator after the call and the content
  of its output parameters after the call.\<close>

definition nanocbor_get_uint32 ::
  "memory \<Rightarrow> nanocbor_value \<Rightarrow> 32 word \<Rightarrow> int \<times> nanocbor_value \<times> 32 word" where
  "nanocbor_get_uint32 mem cvalue val =
     (let (res, v) = get_uint64 mem cvalue (ucast val) NANOCBOR_INT_VAL_UINT32 NANOCBOR_MASK_UINT;
          (r, cvalue') = advance_if cvalue res
      in (r, cvalue', ucast v))"

definition nanocbor_get_int32 ::
  "memory \<Rightarrow> nanocbor_value \<Rightarrow> 32 word \<Rightarrow> 32 word \<Rightarrow> int \<times> nanocbor_value \<times> 32 word" where
  "nanocbor_get_int32 mem cvalue val tmp0 =
     (let (res, i) = get_uint64 mem cvalue 0 NANOCBOR_INT_VAL_UINT32 NANOCBOR_MASK_UINT;
          intermediate = (ucast i :: 32 word);
          (res', val') =
             (if res = NANOCBOR_ERR_INVALID_TYPE
              then get_nint32 mem cvalue intermediate tmp0 NANOCBOR_MASK_NINT
              else (res, intermediate));
          (r, cvalue') = advance_if cvalue res'
      in (r, cvalue', val'))"

definition get_str ::
  "memory \<Rightarrow> nanocbor_value \<Rightarrow> addr \<Rightarrow> 64 word \<Rightarrow> 8 word
     \<Rightarrow> int \<times> nanocbor_value \<times> addr \<times> 64 word" where
  "get_str mem cvalue buf len type =
     (let (res, len') = get_uint64 mem cvalue len NANOCBOR_INT_VAL_SIZE type
      in if endp cvalue - start cvalue < 0 \<or> endp cvalue - start cvalue < uint len'
         then (NANOCBOR_ERR_END, cvalue, buf, len')
         else
           let (r, cvalue') = advance_if cvalue res
           in if r > 0
              then (res, cvalue'\<lparr>start := start cvalue' + uint len'\<rparr>, start cvalue', len')
              else (res, cvalue', buf, len'))"

definition nanocbor_get_bstr ::
  "memory \<Rightarrow> nanocbor_value \<Rightarrow> addr \<Rightarrow> 64 word \<Rightarrow> int \<times> nanocbor_value \<times> addr \<times> 64 word" where
  "nanocbor_get_bstr mem cvalue buf len = get_str mem cvalue buf len NANOCBOR_MASK_BSTR"

definition nanocbor_get_tstr ::
  "memory \<Rightarrow> nanocbor_value \<Rightarrow> addr \<Rightarrow> 64 word \<Rightarrow> int \<times> nanocbor_value \<times> addr \<times> 64 word" where
  "nanocbor_get_tstr mem cvalue buf len = get_str mem cvalue buf len NANOCBOR_MASK_TSTR"

definition nanocbor_get_null :: "memory \<Rightarrow> nanocbor_value \<Rightarrow> int \<times> nanocbor_value" where
  "nanocbor_get_null mem cvalue =
     (if mem (start cvalue) = (NANOCBOR_MASK_FLOAT OR NANOCBOR_SIMPLE_NULL)
      then (NANOCBOR_OK, advance cvalue 1)
      else (NANOCBOR_ERR_INVALID_TYPE, cvalue))"

definition nanocbor_get_bool ::
  "memory \<Rightarrow> nanocbor_value \<Rightarrow> bool \<Rightarrow> int \<times> nanocbor_value \<times> bool" where
  "nanocbor_get_bool mem cvalue val =
     (if mem (start cvalue) AND (NANOCBOR_TYPE_MASK OR (NANOCBOR_VALUE_MASK - 1))
           = (NANOCBOR_MASK_FLOAT OR NANOCBOR_SIMPLE_FALSE)
      then (NANOCBOR_OK, advance cvalue 1, mem (start cvalue) AND 0x01 \<noteq> 0)
      else (NANOCBOR_ERR_INVALID_TYPE, cvalue, val))"

subsection \<open>Containers\<close>

text \<open>\<open>_enter_container\<close> never writes the parent \<open>it\<close>; the result is the return code
  and the content of \<open>*container\<close> after the call, given its content before.\<close>

definition enter_container ::
  "memory \<Rightarrow> nanocbor_value \<Rightarrow> nanocbor_value \<Rightarrow> 8 word \<Rightarrow> int \<times> nanocbor_value" where
  "enter_container mem it container type =
     (let c = container\<lparr>endp := endp it\<rparr>
      in if mem (start it) AND 0x1F = 0x1F
         then (NANOCBOR_OK,
               c\<lparr>flags := NANOCBOR_DECODER_FLAG_INDEFINITE OR NANOCBOR_DECODER_FLAG_CONTAINER,
                 start := start it + 1,
                 remaining := UINT32_MAX\<rparr>)
         else
           let (res, r) = get_uint64 mem it (ucast (remaining c)) NANOCBOR_INT_VAL_UINT32 type;
               c' = c\<lparr>remaining := ucast r\<rparr>
           in if res < 0 then (res, c')
              else (NANOCBOR_OK,
                    c'\<lparr>flags := NANOCBOR_DECODER_FLAG_CONTAINER, start := start it + res\<rparr>))"

definition nanocbor_enter_array ::
  "memory \<Rightarrow> nanocbor_value \<Rightarrow> nanocbor_value \<Rightarrow> int \<times> nanocbor_value" where
  "nanocbor_enter_array mem it array = enter_container mem it array NANOCBOR_MASK_ARR"

definition nanocbor_enter_map ::
  "memory \<Rightarrow> nanocbor_value \<Rightarrow> nanocbor_value \<Rightarrow> int \<times> nanocbor_value" where
  "nanocbor_enter_map mem it map0 =
     (let (res, m) = enter_container mem it map0 NANOCBOR_MASK_MAP
      in if remaining m > UINT32_MAX div 2 then (NANOCBOR_ERR_OVERFLOW, m)
         else (res, m\<lparr>remaining := remaining m * 2\<rparr>))"

definition nanocbor_leave_container :: "nanocbor_value \<Rightarrow> nanocbor_value \<Rightarrow> nanocbor_value" where
  "nanocbor_leave_container it array =
     (let it' = it\<lparr>start := start array\<rparr>
      in if flags it' = NANOCBOR_DECODER_FLAG_CONTAINER
         then it'\<lparr>remaining := remaining it' - 1\<rparr>
         else it')"

subsection \<open>Skipping\<close>

definition skip_simple :: "memory \<Rightarrow> nanocbor_value \<Rightarrow> 64 word \<Rightarrow> int \<times> nanocbor_value" where
  "skip_simple mem it tmp =
     (let (res, t) = get_uint64 mem it tmp NANOCBOR_INT_VAL_UINT64 (get_type mem it)
      in advance_if it res)"

definition nanocbor_skip_simple :: "memory \<Rightarrow> nanocbor_value \<Rightarrow> 64 word \<Rightarrow> int \<times> nanocbor_value" where
  "nanocbor_skip_simple mem it tmp = skip_simple mem it tmp"

text \<open>
  The locals that \<open>_skip_limited\<close> and \<open>_skip_simple\<close> leave uninitialised: \<open>len\<close>,
  \<open>recurse\<close> and \<open>tmp\<close>. The parameter \<open>junk\<close> of the model gives their content at
  each value of \<open>limit\<close>.
\<close>

record skip_frame =
  len0 :: "64 word"
  recurse0 :: nanocbor_value
  tmp0 :: "64 word"

text \<open>
  \<open>_skip_limited\<close> recurses with \<open>limit - 1\<close> from inside a \<open>while\<close> loop that stops
  when \<open>nanocbor_at_end\<close> says so or a child fails. Over a store that never shows the end
  of an indefinite container the loop does not stop, so the model carries fuel: every
  iteration of a loop takes one unit, and \<open>None\<close> means the fuel ran out.
  \<open>skip_children\<close> is the loop; its last argument is the value of \<open>res\<close> on entry to
  the iteration.
\<close>

fun skip_limited ::
  "nat \<Rightarrow> memory \<Rightarrow> (nat \<Rightarrow> skip_frame) \<Rightarrow> nanocbor_value \<Rightarrow> nat \<Rightarrow> (int \<times> nanocbor_value) option"
and skip_children ::
  "nat \<Rightarrow> memory \<Rightarrow> (nat \<Rightarrow> skip_frame) \<Rightarrow> nanocbor_value \<Rightarrow> nat \<Rightarrow> int \<Rightarrow> (int \<times> nanocbor_value) option"
where
  "skip_limited fuel mem junk it 0 = Some (NANOCBOR_ERR_RECURSION, it)"
| "skip_limited fuel mem junk it (Suc l) =
     (let type = get_type mem it
      in if type = NANOCBOR_MASK_BSTR \<or> type = NANOCBOR_MASK_TSTR then
           (case get_str mem it 0 (len0 (junk (Suc l))) type of
              (res, it', tmp, len) \<Rightarrow> Some (res, it'))
         else if type = NANOCBOR_MASK_ARR \<or> type = NANOCBOR_MASK_MAP then
           (case (if type = NANOCBOR_MASK_MAP
                  then nanocbor_enter_map mem it (recurse0 (junk (Suc l)))
                  else nanocbor_enter_array mem it (recurse0 (junk (Suc l)))) of
              (res, recurse) \<Rightarrow>
                if \<not> res < 0 then
                  (case skip_children fuel mem junk recurse l res of
                     None \<Rightarrow> None
                   | Some (res', recurse') \<Rightarrow> Some (res', nanocbor_leave_container it recurse'))
                else Some (res, nanocbor_leave_container it recurse))
         else Some (skip_simple mem it (tmp0 (junk (Suc l)))))"
| "skip_children 0 mem junk recurse l res = None"
| "skip_children (Suc fuel) mem junk recurse l res =
     (case nanocbor_at_end mem recurse of
        (True, recurse') \<Rightarrow> Some (res, recurse')
      | (False, recurse') \<Rightarrow>
          (case skip_limited fuel mem junk recurse' l of
             None \<Rightarrow> None
           | Some (res', recurse'') \<Rightarrow>
               if res' < 0 then Some (res', recurse'')
               else skip_children fuel mem junk recurse'' l res'))"

definition nanocbor_skip ::
  "nat \<Rightarrow> memory \<Rightarrow> (nat \<Rightarrow> skip_frame) \<Rightarrow> nanocbor_value \<Rightarrow> (int \<times> nanocbor_value) option" where
  "nanocbor_skip fuel mem junk it = skip_limited fuel mem junk it NANOCBOR_RECURSION_MAX"

subsection \<open>Buffers in the store\<close>

text \<open>The store that holds the bytes \<open>bs\<close> from address 0 on and \<open>rest\<close> elsewhere;
  \<open>zeroed\<close> is the store of zero bytes, \<open>no_junk\<close> the stack frames of zeros.\<close>

definition buffer_at0 :: "8 word list \<Rightarrow> memory \<Rightarrow> memory" where
  "buffer_at0 bs rest = (\<lambda>a. if 0 \<le> a \<and> a < int (length bs) then bs ! nat a else rest a)"

definition zeroed :: memory where
  "zeroed = (\<lambda>a. 0)"

definition no_junk :: "nat \<Rightarrow> skip_frame" where
  "no_junk = (\<lambda>l. \<lparr>len0 = 0, recurse0 = \<lparr>start = 0, endp = 0, remaining = 0, flags = 0\<rparr>, tmp0 = 0\<rparr>)"

text \<open>Stack frames whose uninitialised \<open>recurse.remaining\<close> holds \<open>0xFFFFFFFF\<close>.\<close>

definition ones_junk :: "nat \<Rightarrow> skip_frame" where
  "ones_junk = (\<lambda>l. \<lparr>len0 = 0,
      recurse0 = \<lparr>start = 0, endp = 0, remaining = 0xFFFFFFFF, flags = 0\<rparr>, tmp0 = 0\<rparr>)"

text \<open>The number that a list of bytes denotes in network byte order, the argument of a
  CBOR header as the wire format defines it.\<close>

definition be_nat :: "8 word list \<Rightarrow> nat" where
  "be_nat bs = foldl (\<lambda>acc b. acc * 256 + unat b) 0 bs"

subsection \<open>One accessor call as a step on the caller's iterator\<close>

text \<open>
  The public accessors, each with the previous content of its output parameters (and of
  the uninitialised local of \<open>_get_nint32\<close> for the signed read). \<open>accessor_call\<close>
  gives the return code and the caller's iterator after the call. The two enter
  functions only read the iterator they are given: they write the child.
\<close>

datatype accessor =
    GetUint32 "32 word"
  | GetInt32 "32 word" "32 word"
  | GetBool bool
  | GetNull
  | GetByteString addr "64 word"
  | GetTextString addr "64 word"
  | EnterArray nanocbor_value
  | EnterMap nanocbor_value

fun accessor_call :: "memory \<Rightarrow> nanocbor_value \<Rightarrow> accessor \<Rightarrow> int \<times> nanocbor_value" where
  "accessor_call mem it (GetUint32 v) =
     (case nanocbor_get_uint32 mem it v of (res, it', v') \<Rightarrow> (res, it'))"
| "accessor_call mem it (GetInt32 v tmp) =
     (case nanocbor_get_int32 mem it v tmp of (res, it', v') \<Rightarrow> (res, it'))"
| "accessor_call mem it (GetBool b) =
     (case nanocbor_get_bool mem it b of (res, it', b') \<Rightarrow> (res, it'))"
| "accessor_call mem it GetNull = nanocbor_get_null mem it"
| "accessor_call mem it (GetByteString buf len) =
     (case nanocbor_get_bstr mem it buf len of (res, it', buf', len') \<Rightarrow> (res, it'))"
| "accessor_call mem it (GetTextString buf len) =
     (case nanocbor_get_tstr mem it buf len of (res, it', buf', len') \<Rightarrow> (res, it'))"
| "accessor_call mem it (EnterArray c) =
     (case nanocbor_enter_array mem it c of (res, c') \<Rightarrow> (res, it))"
| "accessor_call mem it (EnterMap c) =
     (case nanocbor_enter_map mem it c of (res, c') \<Rightarrow> (res, it))"

text \<open>Whether an accessor reads an item (the others enter a container).\<close>

fun reads_item :: "accessor \<Rightarrow> bool" where
  "reads_item (EnterArray c) = False"
| "reads_item (EnterMap c) = False"
| "reads_item a = True"

section \<open>Properties\<close>

lemmas err_defs = NANOCBOR_OK_def NANOCBOR_ERR_OVERFLOW_def NANOCBOR_ERR_INVALID_TYPE_def
  NANOCBOR_ERR_END_def NANOCBOR_ERR_RECURSION_def

lemmas mask_defs = NANOCBOR_TYPE_MASK_def NANOCBOR_VALUE_MASK_def NANOCBOR_MASK_UINT_def
  NANOCBOR_MASK_NINT_def NANOCBOR_MASK_BSTR_def NANOCBOR_MASK_TSTR_def NANOCBOR_MASK_ARR_def
  NANOCBOR_MASK_MAP_def NANOCBOR_MASK_TAG_def NANOCBOR_MASK_FLOAT_def NANOCBOR_SIMPLE_FALSE_def
  NANOCBOR_SIMPLE_TRUE_def NANOCBOR_SIMPLE_NULL_def NANOCBOR_INT_VAL_UINT8_def
  NANOCBOR_INT_VAL_UINT16_def NANOCBOR_INT_VAL_UINT32_def NANOCBOR_INT_VAL_UINT64_def
  NANOCBOR_INT_VAL_SIZE_def NANOCBOR_DECODER_FLAG_CONTAINER_def
  NANOCBOR_DECODER_FLAG_INDEFINITE_def UINT32_MAX_def INT32_MAX_def

subsection \<open>The header parser, case by case\<close>

lemma get_uint64_inline:
  "get_type mem it = t \<Longrightarrow> unat (mem (start it) AND NANOCBOR_VALUE_MASK) < 24 \<Longrightarrow>
   get_uint64 mem it v maxw t = (1, of_nat (unat (mem (start it) AND NANOCBOR_VALUE_MASK)))"
  by (simp add: get_uint64_def Let_def)

lemma get_uint64_mismatch:
  "get_type mem it \<noteq> t \<Longrightarrow> get_uint64 mem it v maxw t = (NANOCBOR_ERR_INVALID_TYPE, v)"
  by (auto simp add: get_uint64_def Let_def)

lemma get_uint64_wide:
  "24 \<le> unat (mem (start it) AND NANOCBOR_VALUE_MASK) \<Longrightarrow>
   unat maxw < unat (mem (start it) AND NANOCBOR_VALUE_MASK) \<Longrightarrow>
   get_uint64 mem it v maxw t =
     (if t \<noteq> get_type mem it then NANOCBOR_ERR_INVALID_TYPE else NANOCBOR_ERR_OVERFLOW, v)"
  by (auto simp add: get_uint64_def Let_def)

lemma one_plus_power_nonzero: "(1::int) + 2 ^ n \<noteq> 0"
proof -
  have "(0::int) < 2 ^ n" by simp
  then show ?thesis by arith
qed

lemma get_uint64_res_nonzero: "fst (get_uint64 mem it v maxw t) \<noteq> 0"
  by (auto simp add: get_uint64_def Let_def err_defs one_plus_power_nonzero)

lemma ucast_32_64_32: "(ucast (ucast (w :: 32 word) :: 64 word) :: 32 word) = w"
  by (simp add: ucast_up_ucast_id is_up)

subsection \<open>Bytes whose selector is 28 or more\<close>

lemma low_bits_le: "unat ((b :: 8 word) AND 0x17) \<le> 23"
proof -
  have "b AND 0x17 \<le> 0x17" by (rule word_and_le1)
  then show ?thesis by (simp add: word_le_nat_alt)
qed

lemma selector_bit3:
  assumes "(b :: 8 word) AND 0x08 = 0"
  shows "unat (b AND 0x1F) \<le> 23"
proof -
  have "b AND 0x1F = b AND (0x17 OR 0x08)" by simp
  also have "\<dots> = (b AND 0x17) OR (b AND 0x08)" by (rule word_ao_dist2)
  also have "\<dots> = b AND 0x17" using assms by simp
  finally show ?thesis using low_bits_le [of b] by simp
qed

lemma bool_byte_selector:
  assumes "(b :: 8 word) AND 0xFE = 0xF4"
  shows "unat (b AND 0x1F) \<le> 23"
proof -
  have "(b AND 0xFE) AND 0x08 = 0" using assms by simp
  then have "b AND 0x08 = 0" by (simp add: and.assoc)
  then show ?thesis by (rule selector_bit3)
qed

lemma selector_not_indefinite:
  assumes "unat ((b :: 8 word) AND 0x1F) \<le> 30"
  shows "b AND 0x1F \<noteq> 0x1F"
proof
  assume "b AND 0x1F = 0x1F"
  then have "unat (b AND 0x1F) = 31" by simp
  with assms show False by simp
qed

lemma accessor_invalid_selector:
  assumes lo: "28 \<le> unat (mem (start it) AND NANOCBOR_VALUE_MASK)"
    and hi: "unat (mem (start it) AND NANOCBOR_VALUE_MASK) \<le> 30"
  shows "fst (accessor_call mem it a) < 0"
proof -
  have wide: "get_uint64 mem it v maxw t =
      (if t \<noteq> get_type mem it then NANOCBOR_ERR_INVALID_TYPE else NANOCBOR_ERR_OVERFLOW, v)"
    if "unat maxw = 26 \<or> unat maxw = 27" for v maxw t
    using that lo by (intro get_uint64_wide) auto
  have w26: "get_uint64 mem it v NANOCBOR_INT_VAL_UINT32 t =
      (if t \<noteq> get_type mem it then NANOCBOR_ERR_INVALID_TYPE else NANOCBOR_ERR_OVERFLOW, v)"
    for v t
    by (rule wide) (simp add: mask_defs)
  have w27: "get_uint64 mem it v NANOCBOR_INT_VAL_SIZE t =
      (if t \<noteq> get_type mem it then NANOCBOR_ERR_INVALID_TYPE else NANOCBOR_ERR_OVERFLOW, v)"
    for v t
    by (rule wide) (simp add: mask_defs)
  have nind: "mem (start it) AND 0x1F \<noteq> 0x1F"
    using hi by (intro selector_not_indefinite) (simp add: mask_defs)
  show ?thesis
  proof (cases a)
    case (GetUint32 v)
    then show ?thesis by (simp add: nanocbor_get_uint32_def w26 advance_if_def err_defs)
  next
    case (GetInt32 v t)
    then show ?thesis
      by (simp add: nanocbor_get_int32_def get_nint32_def w26 advance_if_def err_defs Let_def)
  next
    case (GetBool b)
    have "mem (start it) AND 0xFE \<noteq> 0xF4"
      using bool_byte_selector [of "mem (start it)"] lo by (auto simp: mask_defs)
    with GetBool show ?thesis by (simp add: nanocbor_get_bool_def mask_defs err_defs)
  next
    case GetNull
    have "mem (start it) \<noteq> 0xF6" using lo by (auto simp: mask_defs)
    with GetNull show ?thesis by (simp add: nanocbor_get_null_def mask_defs err_defs)
  next
    case (GetByteString b l)
    then show ?thesis
      by (simp add: nanocbor_get_bstr_def get_str_def w27 advance_if_def err_defs Let_def)
  next
    case (GetTextString b l)
    then show ?thesis
      by (simp add: nanocbor_get_tstr_def get_str_def w27 advance_if_def err_defs Let_def)
  next
    case (EnterArray c)
    then show ?thesis using nind
      by (simp add: nanocbor_enter_array_def enter_container_def w26 err_defs Let_def)
  next
    case (EnterMap c)
    then show ?thesis using nind
      by (simp add: nanocbor_enter_map_def enter_container_def w26 err_defs Let_def)
  qed
qed

subsection \<open>Failed reads do not move the cursor\<close>

lemma advance_if_neg: "res < 0 \<Longrightarrow> advance_if it res = (res, it)"
  by (simp add: advance_if_def)

lemma advance_if_pos: "0 < res \<Longrightarrow> advance_if it res = (res, advance it res)"
  by (simp add: advance_if_def)

lemma get_str_error:
  "get_str mem it buf len t = (res, it', buf', len') \<Longrightarrow> res < 0 \<Longrightarrow> it' = it"
  by (auto simp: get_str_def Let_def advance_if_def err_defs split: prod.splits if_splits)

lemma accessor_error:
  assumes "fst (accessor_call mem it a) < 0"
  shows "snd (accessor_call mem it a) = it"
proof (cases a)
  case (GetUint32 v)
  then show ?thesis using assms
    by (auto simp: nanocbor_get_uint32_def advance_if_def split: prod.splits if_splits)
next
  case (GetInt32 v t)
  then show ?thesis using assms
    by (auto simp: nanocbor_get_int32_def advance_if_def Let_def split: prod.splits if_splits)
next
  case (GetBool b)
  then show ?thesis using assms
    by (auto simp: nanocbor_get_bool_def err_defs split: prod.splits if_splits)
next
  case GetNull
  then show ?thesis using assms
    by (auto simp: nanocbor_get_null_def err_defs split: prod.splits if_splits)
next
  case (GetByteString b l)
  then show ?thesis using assms
    by (auto simp: nanocbor_get_bstr_def dest: get_str_error split: prod.splits)
next
  case (GetTextString b l)
  then show ?thesis using assms
    by (auto simp: nanocbor_get_tstr_def dest: get_str_error split: prod.splits)
next
  case (EnterArray c)
  then show ?thesis by (simp split: prod.splits)
next
  case (EnterMap c)
  then show ?thesis by (simp split: prod.splits)
qed

lemmas accessor_defs = nanocbor_get_uint32_def nanocbor_get_int32_def get_nint32_def
  nanocbor_get_bool_def nanocbor_get_null_def nanocbor_get_bstr_def nanocbor_get_tstr_def
  get_str_def nanocbor_enter_array_def nanocbor_enter_map_def enter_container_def
  get_uint64_def get_type_def advance_if_def advance_def

text \<open>
  C4. Whatever the store, the iterator and the accessor (getUint32, getInt32, getBool,
  getNull, getByteString, getTextString, enterArray, enterMap): when the call returns an
  error, the iterator's start position is what it was before the call, so that another
  accessor can be tried at the same position.
\<close>

theorem failed_accessor_keeps_start:
  "fst (accessor_call mem it a) < 0 \<Longrightarrow> start (snd (accessor_call mem it a)) = start it"
  by (simp add: accessor_error)

theorem failed_accessor_keeps_start_witness:
  "(fst (accessor_call (buffer_at0 [0xC0] zeroed)
           \<lparr>start = 0, endp = 1, remaining = 2, flags = 0\<rparr> (GetUint32 0)) < 0
    \<and> start (snd (accessor_call (buffer_at0 [0xC0] zeroed)
           \<lparr>start = 0, endp = 1, remaining = 2, flags = 0\<rparr> (GetUint32 0))) = 0)
   \<and> (fst (accessor_call (buffer_at0 [0xC0] zeroed)
           \<lparr>start = 0, endp = 1, remaining = 2, flags = 0\<rparr> (GetInt32 0 0)) < 0
    \<and> start (snd (accessor_call (buffer_at0 [0xC0] zeroed)
           \<lparr>start = 0, endp = 1, remaining = 2, flags = 0\<rparr> (GetInt32 0 0))) = 0)
   \<and> (fst (accessor_call (buffer_at0 [0xC0] zeroed)
           \<lparr>start = 0, endp = 1, remaining = 2, flags = 0\<rparr> (GetByteString 0 0)) < 0
    \<and> start (snd (accessor_call (buffer_at0 [0xC0] zeroed)
           \<lparr>start = 0, endp = 1, remaining = 2, flags = 0\<rparr> (GetByteString 0 0))) = 0)
   \<and> (fst (accessor_call (buffer_at0 [0xC0] zeroed)
           \<lparr>start = 0, endp = 1, remaining = 2, flags = 0\<rparr> GetNull) < 0
    \<and> start (snd (accessor_call (buffer_at0 [0xC0] zeroed)
           \<lparr>start = 0, endp = 1, remaining = 2, flags = 0\<rparr> GetNull)) = 0)"
proof -
  let ?m = "buffer_at0 [0xC0] zeroed"
  let ?it = "\<lparr>start = 0, endp = 1, remaining = 2, flags = 0\<rparr>"
  have h1: "fst (accessor_call ?m ?it (GetUint32 0)) < 0"
    by (simp add: accessor_defs buffer_at0_def mask_defs err_defs)
  have h2: "fst (accessor_call ?m ?it (GetInt32 0 0)) < 0"
    by (simp add: accessor_defs buffer_at0_def mask_defs err_defs)
  have h3: "fst (accessor_call ?m ?it (GetByteString 0 0)) < 0"
    by (simp add: accessor_defs buffer_at0_def mask_defs err_defs)
  have h4: "fst (accessor_call ?m ?it GetNull) < 0"
    by (simp add: accessor_defs buffer_at0_def mask_defs err_defs)
  show ?thesis
    using h1 failed_accessor_keeps_start [OF h1] h2 failed_accessor_keeps_start [OF h2]
      h3 failed_accessor_keeps_start [OF h3] h4 failed_accessor_keeps_start [OF h4]
    by simp
qed

subsection \<open>Strings\<close>

text \<open>
  C1. Claimed: a successful getByteString or getTextString returns a slice inside the
  buffer, and a payload that extends past the iterator's end gives the End error. The
  code compares the declared length with \<open>end - start\<close> while \<open>start\<close> still points at
  the header, and the slice begins after the header. On the one-byte buffer that holds
  only the header 0x41 (a byte string of length 1) the call succeeds: it returns 1, the
  slice begins at \<open>end\<close> and is one byte long, and the cursor is left at \<open>end + 1\<close>.
\<close>

theorem get_bstr_slice_past_end:
  "mem (start it) = 0x41 \<Longrightarrow> endp it = start it + 1 \<Longrightarrow>
   nanocbor_get_bstr mem it buf len =
     (1, it\<lparr>start := start it + 2, remaining := remaining it - 1\<rparr>, start it + 1, 1)"
  by (simp add: accessor_defs mask_defs err_defs Let_def)

theorem get_bstr_slice_past_end_witness:
  "buffer_at0 [0x41] zeroed 0 = 0x41 \<and>
   nanocbor_get_bstr (buffer_at0 [0x41] zeroed)
       \<lparr>start = 0, endp = 1, remaining = 2, flags = 0\<rparr> 0 0 =
     (1, \<lparr>start = 2, endp = 1, remaining = 1, flags = 0\<rparr>, 1, 1)"
proof -
  let ?it = "\<lparr>start = 0, endp = 1, remaining = 2, flags = 0\<rparr>"
  have h1: "buffer_at0 [0x41] zeroed (start ?it) = 0x41" by (simp add: buffer_at0_def)
  have h2: "endp ?it = start ?it + 1" by simp
  show ?thesis
    using h1 get_bstr_slice_past_end [of "buffer_at0 [0x41] zeroed" ?it 0 0, OF h1 h2] by simp
qed

subsection \<open>Truncated arguments\<close>

text \<open>
  C2. Claimed: on a strict prefix of an item every accessor returns the End error and
  leaves the cursor where it was, as getUint32 does on the one-byte buffer 0x18. The
  bound check of the header parser is \<open>start + bytes > end\<close>, without the initial byte:
  on that buffer it passes, the byte after the buffer is read as the argument, the call
  returns 2 and the cursor moves two bytes, one past \<open>end\<close>.
\<close>

theorem get_uint32_truncated_argument:
  "mem (start it) = 0x18 \<Longrightarrow> endp it = start it + 1 \<Longrightarrow>
   fst (nanocbor_get_uint32 mem it v) = 2 \<and>
   fst (snd (nanocbor_get_uint32 mem it v)) =
     it\<lparr>start := start it + 2, remaining := remaining it - 1\<rparr>"
  by (simp add: accessor_defs mask_defs err_defs Let_def)

theorem get_uint32_truncated_argument_witness:
  "buffer_at0 [0x18] zeroed 0 = 0x18 \<and>
   fst (nanocbor_get_uint32 (buffer_at0 [0x18] zeroed)
          \<lparr>start = 0, endp = 1, remaining = 2, flags = 0\<rparr> 0) = 2 \<and>
   fst (snd (nanocbor_get_uint32 (buffer_at0 [0x18] zeroed)
          \<lparr>start = 0, endp = 1, remaining = 2, flags = 0\<rparr> 0)) =
     \<lparr>start = 2, endp = 1, remaining = 1, flags = 0\<rparr>"
proof -
  let ?it = "\<lparr>start = 0, endp = 1, remaining = 2, flags = 0\<rparr>"
  have h1: "buffer_at0 [0x18] zeroed (start ?it) = 0x18" by (simp add: buffer_at0_def)
  have h2: "endp ?it = start ?it + 1" by simp
  show ?thesis
    using h1 get_uint32_truncated_argument [of "buffer_at0 [0x18] zeroed" ?it 0, OF h1 h2]
    by simp
qed

subsection \<open>Indefinite maps\<close>

text \<open>
  C3. Claimed: on an indefinite-length map header enterMap succeeds with a child that has
  the indefinite and container flags and starts after the initial byte. The child is as
  claimed, but \<open>_enter_container\<close> sets its \<open>remaining\<close> to \<open>UINT32_MAX\<close> and
  \<open>nanocbor_enter_map\<close> then finds \<open>remaining > UINT32_MAX / 2\<close>: the call returns
  the Overflow error on every initial byte whose selector is 31.
\<close>

theorem enter_map_indefinite_overflow:
  "mem (start it) AND 0x1F = 0x1F \<Longrightarrow>
   fst (nanocbor_enter_map mem it m) = NANOCBOR_ERR_OVERFLOW \<and>
   flags (snd (nanocbor_enter_map mem it m)) =
     NANOCBOR_DECODER_FLAG_INDEFINITE OR NANOCBOR_DECODER_FLAG_CONTAINER \<and>
   start (snd (nanocbor_enter_map mem it m)) = start it + 1"
  by (simp add: nanocbor_enter_map_def enter_container_def mask_defs err_defs Let_def)

theorem enter_map_indefinite_overflow_witness:
  "buffer_at0 [0xBF, 0xFF] zeroed 0 AND 0x1F = 0x1F \<and>
   fst (nanocbor_enter_map (buffer_at0 [0xBF, 0xFF] zeroed)
          \<lparr>start = 0, endp = 2, remaining = 0, flags = 0\<rparr>
          \<lparr>start = 0, endp = 0, remaining = 0, flags = 0\<rparr>) = - 1"
proof -
  let ?it = "\<lparr>start = 0, endp = 2, remaining = 0, flags = 0\<rparr>"
  have h: "buffer_at0 [0xBF, 0xFF] zeroed (start ?it) AND 0x1F = 0x1F"
    by (simp add: buffer_at0_def)
  show ?thesis
    using h enter_map_indefinite_overflow [of "buffer_at0 [0xBF, 0xFF] zeroed" ?it
        "\<lparr>start = 0, endp = 0, remaining = 0, flags = 0\<rparr>", OF h]
    by (simp add: err_defs)
qed

text \<open>So skip fails on the indefinite map 0xBF 01 02 0xFF (one entry, then the break byte)
  and succeeds on its definite form 0xA1 01 02.\<close>

lemma skip_indefinite_map:
  "map_option fst
     (nanocbor_skip 4 (buffer_at0 [0xBF, 0x01, 0x02, 0xFF] zeroed) no_junk
        \<lparr>start = 0, endp = 4, remaining = 0, flags = 0\<rparr>) = Some NANOCBOR_ERR_OVERFLOW
   \<and> map_option fst
     (nanocbor_skip 4 (buffer_at0 [0xA1, 0x01, 0x02] zeroed) no_junk
        \<lparr>start = 0, endp = 3, remaining = 0, flags = 0\<rparr>) = Some 1"
  by code_simp

subsection \<open>Invalid selectors\<close>

text \<open>
  C6, as claimed: an initial byte whose selector is 28, 29 or 30 makes the header parser
  fail with InvalidType. It does not where the major type is the expected one: getUint32
  on the byte 0x1C (unsigned integer, selector 28) fails with Overflow.
\<close>

theorem selector_28_counterexample:
  "fst (get_uint64 (buffer_at0 [0x1C] zeroed) \<lparr>start = 0, endp = 1, remaining = 0, flags = 0\<rparr>
          0 NANOCBOR_INT_VAL_UINT32 NANOCBOR_MASK_UINT) \<noteq> NANOCBOR_ERR_INVALID_TYPE \<and>
   fst (nanocbor_get_uint32 (buffer_at0 [0x1C] zeroed)
          \<lparr>start = 0, endp = 1, remaining = 0, flags = 0\<rparr> 0) = NANOCBOR_ERR_OVERFLOW"
  by (simp add: accessor_defs buffer_at0_def mask_defs err_defs)

text \<open>
  C6, amended. For an initial byte whose selector is 28, 29 or 30 and a maximal width
  selector of at most 27 (the code passes 26 and 27), the header parser fails: with
  InvalidType when the major type is not the expected one, with Overflow when it is.
  Every accessor fails on such a byte.
\<close>

theorem selector_28_to_30_fails:
  assumes "28 \<le> unat (mem (start it) AND NANOCBOR_VALUE_MASK)"
    and "unat (mem (start it) AND NANOCBOR_VALUE_MASK) \<le> 30"
    and "unat maxw \<le> 27"
  shows "fst (get_uint64 mem it v maxw t) =
           (if t \<noteq> get_type mem it then NANOCBOR_ERR_INVALID_TYPE else NANOCBOR_ERR_OVERFLOW)
         \<and> fst (accessor_call mem it a) < 0"
proof -
  have "get_uint64 mem it v maxw t =
      (if t \<noteq> get_type mem it then NANOCBOR_ERR_INVALID_TYPE else NANOCBOR_ERR_OVERFLOW, v)"
    using assms by (intro get_uint64_wide) auto
  then show ?thesis using assms(1,2) by (simp add: accessor_invalid_selector)
qed

theorem selector_28_to_30_fails_witness:
  "fst (get_uint64 (buffer_at0 [0x1C] zeroed) \<lparr>start = 0, endp = 1, remaining = 0, flags = 0\<rparr>
          0 NANOCBOR_INT_VAL_UINT32 NANOCBOR_MASK_UINT) = NANOCBOR_ERR_OVERFLOW \<and>
   fst (accessor_call (buffer_at0 [0x1C] zeroed)
          \<lparr>start = 0, endp = 1, remaining = 0, flags = 0\<rparr> (GetByteString 0 0)) < 0"
proof -
  let ?m = "buffer_at0 [0x1C] zeroed"
  let ?it = "\<lparr>start = 0, endp = 1, remaining = 0, flags = 0\<rparr>"
  have h1: "28 \<le> unat (?m (start ?it) AND NANOCBOR_VALUE_MASK)"
    by (simp add: buffer_at0_def mask_defs)
  have h2: "unat (?m (start ?it) AND NANOCBOR_VALUE_MASK) \<le> 30"
    by (simp add: buffer_at0_def mask_defs)
  have h3: "unat NANOCBOR_INT_VAL_UINT32 \<le> 27" by (simp add: mask_defs)
  have t: "NANOCBOR_MASK_UINT = get_type ?m ?it"
    by (simp add: get_type_def buffer_at0_def mask_defs)
  show ?thesis
    using selector_28_to_30_fails [of ?m ?it NANOCBOR_INT_VAL_UINT32 0 NANOCBOR_MASK_UINT
        "GetByteString 0 0", OF h1 h2 h3] t
    by simp
qed

subsection \<open>The signed read and its output parameter\<close>

text \<open>
  C10. getInt32 assigns to its output parameter before it knows whether the read
  succeeds. On an item that is neither an unsigned nor a negative integer the call
  returns an error and leaves the iterator as it was, and the output parameter holds 0 or
  a value made from the uninitialised local of \<open>_get_nint32\<close>, whatever it held before.
\<close>

theorem get_int32_writes_output_on_error:
  "get_type mem it \<noteq> NANOCBOR_MASK_UINT \<Longrightarrow> get_type mem it \<noteq> NANOCBOR_MASK_NINT \<Longrightarrow>
   fst (nanocbor_get_int32 mem it v tmp) < 0 \<and>
   fst (snd (nanocbor_get_int32 mem it v tmp)) = it \<and>
   snd (snd (nanocbor_get_int32 mem it v tmp)) = (if tmp \<le> INT32_MAX then - tmp - 1 else 0)"
  by (simp add: nanocbor_get_int32_def get_nint32_def get_uint64_mismatch advance_if_def
      err_defs Let_def ucast_32_64_32)

theorem get_int32_writes_output_on_error_witness:
  "get_type (buffer_at0 [0xF6] zeroed) \<lparr>start = 0, endp = 1, remaining = 0, flags = 0\<rparr>
     \<noteq> NANOCBOR_MASK_UINT \<and>
   get_type (buffer_at0 [0xF6] zeroed) \<lparr>start = 0, endp = 1, remaining = 0, flags = 0\<rparr>
     \<noteq> NANOCBOR_MASK_NINT \<and>
   fst (nanocbor_get_int32 (buffer_at0 [0xF6] zeroed)
          \<lparr>start = 0, endp = 1, remaining = 0, flags = 0\<rparr> 7 0x80000000) < 0 \<and>
   snd (snd (nanocbor_get_int32 (buffer_at0 [0xF6] zeroed)
          \<lparr>start = 0, endp = 1, remaining = 0, flags = 0\<rparr> 7 0x80000000)) = 0"
proof -
  let ?m = "buffer_at0 [0xF6] zeroed"
  let ?it = "\<lparr>start = 0, endp = 1, remaining = 0, flags = 0\<rparr>"
  have h1: "get_type ?m ?it \<noteq> NANOCBOR_MASK_UINT"
    by (simp add: get_type_def buffer_at0_def mask_defs)
  have h2: "get_type ?m ?it \<noteq> NANOCBOR_MASK_NINT"
    by (simp add: get_type_def buffer_at0_def mask_defs)
  show ?thesis
    using h1 h2 get_int32_writes_output_on_error [of ?m ?it 7 "0x80000000", OF h1 h2]
    by (simp add: mask_defs)
qed

subsection \<open>The end of a container\<close>

text \<open>
  C9, as claimed: for an indefinite container whose current byte is not 0xFF, atEnd
  returns false. It returns true on the indefinite container iterator (both flags set)
  whose \<open>remaining\<close> is 0, although the current byte is 0x00: the test falls through to
  \<open>remaining == 0\<close>.
\<close>

theorem at_end_indefinite_counterexample:
  "buffer_at0 [0x00] zeroed 0 \<noteq> 0xFF \<and>
   fst (nanocbor_at_end (buffer_at0 [0x00] zeroed)
          \<lparr>start = 0, endp = 1, remaining = 0, flags = 3\<rparr>)"
  by (simp add: nanocbor_at_end_def buffer_at0_def mask_defs)

text \<open>
  C9, amended. For every container iterator, atEnd does not depend on \<open>end\<close>. For an
  indefinite container whose current byte is not 0xFF it returns true exactly when
  \<open>remaining\<close> is 0, and leaves the iterator as it is: so it returns false while
  \<open>remaining\<close> is not 0, also when \<open>start\<close> has reached or passed \<open>end\<close>. For a
  definite container it returns true exactly when \<open>remaining\<close> is 0.
\<close>

theorem at_end_container:
  "flags it AND NANOCBOR_DECODER_FLAG_CONTAINER \<noteq> 0 \<Longrightarrow>
   fst (nanocbor_at_end mem (it\<lparr>endp := e\<rparr>)) = fst (nanocbor_at_end mem it) \<and>
   (flags it AND NANOCBOR_DECODER_FLAG_INDEFINITE \<noteq> 0 \<and> mem (start it) \<noteq> 0xFF \<longrightarrow>
      nanocbor_at_end mem it = (remaining it = 0, it)) \<and>
   (flags it AND NANOCBOR_DECODER_FLAG_INDEFINITE = 0 \<longrightarrow>
      nanocbor_at_end mem it = (remaining it = 0, it))"
  by (simp add: nanocbor_at_end_def)

theorem at_end_container_witness:
  "\<not> fst (nanocbor_at_end (buffer_at0 [0x00] zeroed)
            \<lparr>start = 1, endp = 1, remaining = 5, flags = 3\<rparr>) \<and>
   fst (nanocbor_at_end (buffer_at0 [0x00] zeroed)
          \<lparr>start = 0, endp = 1, remaining = 0, flags = 1\<rparr>)"
proof -
  let ?m = "buffer_at0 [0x00] zeroed"
  let ?i = "\<lparr>start = 1, endp = 1, remaining = 5, flags = 3\<rparr>"
  let ?d = "\<lparr>start = 0, endp = 1, remaining = 0, flags = 1\<rparr>"
  have h1: "flags ?i AND NANOCBOR_DECODER_FLAG_CONTAINER \<noteq> 0" by (simp add: mask_defs)
  have h2: "flags ?d AND NANOCBOR_DECODER_FLAG_CONTAINER \<noteq> 0" by (simp add: mask_defs)
  have h3: "flags ?i AND NANOCBOR_DECODER_FLAG_INDEFINITE \<noteq> 0 \<and> ?m (start ?i) \<noteq> 0xFF"
    by (simp add: mask_defs buffer_at0_def zeroed_def)
  have h4: "flags ?d AND NANOCBOR_DECODER_FLAG_INDEFINITE = 0" by (simp add: mask_defs)
  show ?thesis
    using at_end_container [of ?i ?m 7, OF h1] at_end_container [of ?d ?m 7, OF h2] h3 h4
    by simp
qed

subsection \<open>The count of remaining items\<close>

text \<open>
  C5, as claimed: \<open>remaining\<close> is never decremented on a top-level iterator nor on an
  indefinite container, and never wraps below zero. A successful getUint32 on the
  top-level iterator over the byte 0x01 with \<open>remaining\<close> 0 leaves \<open>remaining\<close> at
  \<open>2^32 - 1\<close>, and on an indefinite container with \<open>remaining\<close> 5 it leaves 4.
\<close>

theorem remaining_decrement_counterexample:
  "fst (nanocbor_get_uint32 (buffer_at0 [0x01] zeroed)
          \<lparr>start = 0, endp = 1, remaining = 0, flags = 0\<rparr> 0) = 1 \<and>
   remaining (fst (snd (nanocbor_get_uint32 (buffer_at0 [0x01] zeroed)
          \<lparr>start = 0, endp = 1, remaining = 0, flags = 0\<rparr> 0))) = 0xFFFFFFFF \<and>
   fst (nanocbor_get_uint32 (buffer_at0 [0x01] zeroed)
          \<lparr>start = 0, endp = 1, remaining = 5, flags = 3\<rparr> 0) = 1 \<and>
   remaining (fst (snd (nanocbor_get_uint32 (buffer_at0 [0x01] zeroed)
          \<lparr>start = 0, endp = 1, remaining = 5, flags = 3\<rparr> 0))) = 4"
  by (simp add: accessor_defs buffer_at0_def mask_defs err_defs)

lemma get_str_remaining:
  "remaining (fst (snd (get_str mem it buf len t))) =
     (if 0 \<le> fst (get_str mem it buf len t) then remaining it - 1 else remaining it)"
  using get_uint64_res_nonzero [of mem it len NANOCBOR_INT_VAL_SIZE t]
  by (auto simp: get_str_def Let_def advance_if_def advance_def err_defs
      split: prod.splits if_splits)

lemma accessor_remaining:
  "remaining (snd (accessor_call mem it a)) =
     (if reads_item a \<and> 0 \<le> fst (accessor_call mem it a)
      then remaining it - 1 else remaining it)"
proof (cases a)
  case (GetUint32 v)
  then show ?thesis
    using get_uint64_res_nonzero [of mem it "ucast v" NANOCBOR_INT_VAL_UINT32 NANOCBOR_MASK_UINT]
    by (auto simp: nanocbor_get_uint32_def advance_if_def advance_def
        split: prod.splits if_splits)
next
  case (GetInt32 v t)
  then show ?thesis
    using get_uint64_res_nonzero [of mem it 0 NANOCBOR_INT_VAL_UINT32 NANOCBOR_MASK_UINT]
      get_uint64_res_nonzero [of mem it "ucast t" NANOCBOR_INT_VAL_UINT32 NANOCBOR_MASK_NINT]
    by (auto simp: nanocbor_get_int32_def get_nint32_def advance_if_def advance_def Let_def
        err_defs split: prod.splits if_splits)
next
  case (GetBool b)
  then show ?thesis
    by (auto simp: nanocbor_get_bool_def advance_def err_defs split: prod.splits if_splits)
next
  case GetNull
  then show ?thesis
    by (auto simp: nanocbor_get_null_def advance_def err_defs split: prod.splits if_splits)
next
  case (GetByteString b l)
  then show ?thesis
    using get_str_remaining [of mem it b l NANOCBOR_MASK_BSTR]
    by (auto simp: nanocbor_get_bstr_def split: prod.splits)
next
  case (GetTextString b l)
  then show ?thesis
    using get_str_remaining [of mem it b l NANOCBOR_MASK_TSTR]
    by (auto simp: nanocbor_get_tstr_def split: prod.splits)
next
  case (EnterArray c)
  then show ?thesis by (simp split: prod.splits)
next
  case (EnterMap c)
  then show ?thesis by (simp split: prod.splits)
qed

text \<open>
  C5, amended. \<open>remaining\<close> changes only by a decrement of one modulo \<open>2^32\<close> (from 0
  it wraps to \<open>2^32 - 1\<close>). Every successful read of an item decrements it, whatever the
  flags of the iterator, top-level iterators and indefinite containers included;
  leave-container decrements it exactly when the flags of the parent are the container
  flag alone. A failed read, enterArray, enterMap and atEnd leave it as it is.
\<close>

theorem remaining_decrements:
  "remaining (snd (accessor_call mem it a)) =
     (if reads_item a \<and> 0 \<le> fst (accessor_call mem it a)
      then remaining it - 1 else remaining it)
   \<and> remaining (nanocbor_leave_container it c) =
     (if flags it = NANOCBOR_DECODER_FLAG_CONTAINER then remaining it - 1 else remaining it)
   \<and> remaining (snd (nanocbor_at_end mem it)) = remaining it"
  by (simp add: accessor_remaining nanocbor_leave_container_def nanocbor_at_end_def Let_def)

subsection \<open>The depth budget of skip\<close>

text \<open>Fuel only bounds the loops: a result reached with some fuel is reached with more.\<close>

lemma skip_fuel_mono:
  "skip_limited f mem junk it l = Some r \<Longrightarrow> skip_limited (f + k) mem junk it l = Some r"
  "skip_children f mem junk rc l res = Some r' \<Longrightarrow>
     skip_children (f + k) mem junk rc l res = Some r'"
proof (induction f mem junk it l and f mem junk rc l res arbitrary: r and r'
       rule: skip_limited_skip_children.induct)
  case (1 fuel mem junk it)
  then show ?case by simp
next
  case (2 fuel mem junk it l)
  then show ?case
    by (auto simp: Let_def split: prod.splits if_splits option.splits)
next
  case (3 mem junk recurse l res)
  then show ?case by simp
next
  case (4 fuel mem junk recurse l res)
  then show ?case
    by (auto simp: Let_def split: prod.splits if_splits option.splits bool.splits)
qed

text \<open>The header 0x81 is a definite array of one element.\<close>

lemma enter_array_one:
  "mem (start it) = 0x81 \<Longrightarrow>
   nanocbor_enter_array mem it c =
     (NANOCBOR_OK, c\<lparr>start := start it + 1, endp := endp it, remaining := 1,
                     flags := NANOCBOR_DECODER_FLAG_CONTAINER\<rparr>)"
  by (simp add: nanocbor_enter_array_def enter_container_def get_uint64_def get_type_def
      mask_defs err_defs Let_def)

lemma type_of_array_one:
  "mem (start it) = 0x81 \<Longrightarrow> get_type mem it = NANOCBOR_MASK_ARR"
  by (simp add: get_type_def mask_defs)

lemma skip_limited_array_one:
  assumes "mem (start it) = 0x81"
  shows "skip_limited fuel mem junk it (Suc l) =
     (case skip_children fuel mem junk
             ((recurse0 (junk (Suc l)))\<lparr>start := start it + 1, endp := endp it,
                     remaining := 1, flags := NANOCBOR_DECODER_FLAG_CONTAINER\<rparr>)
             l NANOCBOR_OK of
        None \<Rightarrow> None
      | Some (res', recurse') \<Rightarrow> Some (res', nanocbor_leave_container it recurse'))"
  using assms
  by (simp add: type_of_array_one enter_array_one Let_def) (simp add: mask_defs err_defs)

lemma at_end_definite:
  "flags it = NANOCBOR_DECODER_FLAG_CONTAINER \<Longrightarrow>
   nanocbor_at_end mem it = (remaining it = 0, it)"
  by (simp add: nanocbor_at_end_def mask_defs)

text \<open>A one-byte item that is neither a string nor a container: its argument is inline.\<close>

lemma skip_leaf_inline:
  assumes "get_type mem it \<noteq> NANOCBOR_MASK_BSTR" and "get_type mem it \<noteq> NANOCBOR_MASK_TSTR"
    and "get_type mem it \<noteq> NANOCBOR_MASK_ARR" and "get_type mem it \<noteq> NANOCBOR_MASK_MAP"
    and "unat (mem (start it) AND NANOCBOR_VALUE_MASK) < 24"
  shows "skip_limited fuel mem junk it (Suc l) = Some (1, advance it 1)"
  using assms by (simp add: skip_simple_def get_uint64_inline advance_if_def Let_def)

text \<open>As many array headers as the budget allows levels: the budget is 0 when the item
  after them is looked at, whatever that item is.\<close>

lemma skip_deep:
  "load_bytes mem (start it) l = replicate l 0x81 \<Longrightarrow> l \<le> fuel \<Longrightarrow>
   map_option fst (skip_limited fuel mem junk it l) = Some NANOCBOR_ERR_RECURSION"
proof (induction l arbitrary: it fuel)
  case 0
  then show ?case by simp
next
  case (Suc l)
  from Suc.prems(2) obtain f where fuel: "fuel = Suc f" and lf: "l \<le> f"
    by (cases fuel) auto
  from Suc.prems(1) have hd: "mem (start it) = 0x81"
    and tl: "load_bytes mem (start it + 1) l = replicate l 0x81" by simp_all
  let ?r = "(recurse0 (junk (Suc l)))\<lparr>start := start it + 1, endp := endp it,
               remaining := 1, flags := NANOCBOR_DECODER_FLAG_CONTAINER\<rparr>"
  have "map_option fst (skip_limited f mem junk ?r l) = Some NANOCBOR_ERR_RECURSION"
    using Suc.IH [of ?r f] tl lf by simp
  then obtain r' where inner: "skip_limited f mem junk ?r l = Some (NANOCBOR_ERR_RECURSION, r')"
    by (cases "skip_limited f mem junk ?r l") auto
  have "skip_children (Suc f) mem junk ?r l NANOCBOR_OK = Some (NANOCBOR_ERR_RECURSION, r')"
    by (simp add: at_end_definite inner) (simp add: err_defs)
  then show ?case
    by (simp add: skip_limited_array_one [of mem it, OF hd] fuel
        del: skip_limited.simps skip_children.simps)
qed

text \<open>Fewer array headers than the budget, around such a one-byte item.\<close>

lemma skip_shallow:
  assumes bytes: "load_bytes mem (start it) (Suc n) = replicate n 0x81 @ [b]"
    and leaf: "b AND NANOCBOR_TYPE_MASK \<noteq> NANOCBOR_MASK_BSTR"
      "b AND NANOCBOR_TYPE_MASK \<noteq> NANOCBOR_MASK_TSTR"
      "b AND NANOCBOR_TYPE_MASK \<noteq> NANOCBOR_MASK_ARR"
      "b AND NANOCBOR_TYPE_MASK \<noteq> NANOCBOR_MASK_MAP"
      "unat (b AND NANOCBOR_VALUE_MASK) < 24"
    and depth: "n < l" and fuel: "n < fuel"
  shows "skip_limited fuel mem junk it l =
     Some (1, it\<lparr>start := start it + int n + 1,
                 remaining := (if n = 0 \<or> flags it = NANOCBOR_DECODER_FLAG_CONTAINER
                               then remaining it - 1 else remaining it)\<rparr>)"
  using bytes depth fuel
proof (induction n arbitrary: it l fuel)
  case 0
  then obtain l' where "l = Suc l'" by (cases l) auto
  moreover from 0 have "mem (start it) = b" by simp
  ultimately show ?case
    using leaf by (simp add: skip_leaf_inline get_type_def advance_def del: skip_limited.simps)
next
  case (Suc n)
  from Suc.prems(2) obtain l' where l: "l = Suc l'" and nl: "n < l'" by (cases l) auto
  from Suc.prems(3) obtain f' where fuel: "fuel = Suc (Suc f')" and nf: "n < Suc f'"
    by (cases fuel; cases "fuel - 1") auto
  from Suc.prems(1) have hd: "mem (start it) = 0x81"
    and tl: "load_bytes mem (start it + 1) (Suc n) = replicate n 0x81 @ [b]" by simp_all
  let ?r = "(recurse0 (junk (Suc l')))\<lparr>start := start it + 1, endp := endp it,
               remaining := 1, flags := NANOCBOR_DECODER_FLAG_CONTAINER\<rparr>"
  let ?r' = "?r\<lparr>start := start it + 1 + int n + 1, remaining := 0\<rparr>"
  have inner: "skip_limited (Suc f') mem junk ?r l' = Some (1, ?r')"
    using Suc.IH [of ?r l' "Suc f'"] tl nl nf by simp
  have "skip_children (Suc (Suc f')) mem junk ?r l' NANOCBOR_OK = Some (1, ?r')"
    by (simp add: at_end_definite inner del: skip_limited.simps)
  then show ?case
    by (simp add: skip_limited_array_one [of mem it, OF hd] fuel l nanocbor_leave_container_def
        Let_def del: skip_limited.simps skip_children.simps)
qed

lemma take_load_bytes: "take k (load_bytes mem a n) = load_bytes mem a (min k n)"
proof (induction n arbitrary: a k)
  case 0
  then show ?case by simp
next
  case (Suc n)
  then show ?case by (cases k) simp_all
qed

lemma load_bytes_prefix:
  assumes "load_bytes mem a (Suc n) = replicate n 0x81 @ [x]" and "l \<le> n"
  shows "load_bytes mem a l = replicate l 0x81"
proof -
  have "load_bytes mem a l = take l (load_bytes mem a (Suc n))"
    using assms(2) by (simp add: take_load_bytes min_def del: load_bytes.simps)
  also have "\<dots> = replicate l 0x81" using assms by (simp add: min_def)
  finally show ?thesis .
qed

text \<open>
  C7, as claimed: skip fails with the Recursion error on \<open>NANOCBOR_RECURSION_MAX + 1\<close>
  levels of singly-nested one-element arrays and succeeds on one level fewer. One level
  fewer is \<open>NANOCBOR_RECURSION_MAX\<close> = 10 one-element arrays, the innermost holding its
  one element, here the integer 1: skip fails on it with the Recursion error too.
\<close>

theorem skip_ten_levels_counterexample:
  "map_option fst
     (nanocbor_skip 11 (buffer_at0 (replicate 10 0x81 @ [0x01]) zeroed) no_junk
        \<lparr>start = 0, endp = 11, remaining = 0, flags = 0\<rparr>)
   = Some NANOCBOR_ERR_RECURSION"
  by code_simp

text \<open>
  C7, amended. Take \<open>n\<close> levels of singly-nested one-element definite arrays, each
  written as the header byte 0x81 (the count inline), around one more byte. When \<open>n\<close>
  is \<open>NANOCBOR_RECURSION_MAX\<close> or more, skip returns the Recursion error, whatever the
  innermost byte is. When \<open>n\<close> is less and the innermost byte is a one-byte item (its
  major type is neither a string nor a container, its selector is below 24: an inline
  integer or a simple value), skip succeeds and leaves the cursor after the item. The
  budget starts at the configuration constant, each container level takes one unit, and
  the budget is tested at every item, the innermost one included. (\<open>n < fuel\<close> is fuel
  enough.)
\<close>

theorem skip_nested_arrays:
  assumes "load_bytes mem (start it) (Suc n) = replicate n 0x81 @ [b]" and "n < fuel"
  shows "(NANOCBOR_RECURSION_MAX \<le> n \<longrightarrow>
            map_option fst (nanocbor_skip fuel mem junk it) = Some NANOCBOR_ERR_RECURSION)
       \<and> (n < NANOCBOR_RECURSION_MAX
            \<and> b AND NANOCBOR_TYPE_MASK \<noteq> NANOCBOR_MASK_BSTR
            \<and> b AND NANOCBOR_TYPE_MASK \<noteq> NANOCBOR_MASK_TSTR
            \<and> b AND NANOCBOR_TYPE_MASK \<noteq> NANOCBOR_MASK_ARR
            \<and> b AND NANOCBOR_TYPE_MASK \<noteq> NANOCBOR_MASK_MAP
            \<and> unat (b AND NANOCBOR_VALUE_MASK) < 24 \<longrightarrow>
            map_option fst (nanocbor_skip fuel mem junk it) = Some 1 \<and>
            map_option (\<lambda>r. start (snd r)) (nanocbor_skip fuel mem junk it)
              = Some (start it + int n + 1))"
proof (intro conjI impI)
  assume deep: "NANOCBOR_RECURSION_MAX \<le> n"
  have "load_bytes mem (start it) NANOCBOR_RECURSION_MAX
          = replicate NANOCBOR_RECURSION_MAX 0x81"
    using assms(1) deep by (rule load_bytes_prefix)
  moreover have "NANOCBOR_RECURSION_MAX \<le> fuel" using deep assms(2) by simp
  ultimately show
    "map_option fst (nanocbor_skip fuel mem junk it) = Some NANOCBOR_ERR_RECURSION"
    unfolding nanocbor_skip_def by (rule skip_deep)
next
  assume shallow: "n < NANOCBOR_RECURSION_MAX
            \<and> b AND NANOCBOR_TYPE_MASK \<noteq> NANOCBOR_MASK_BSTR
            \<and> b AND NANOCBOR_TYPE_MASK \<noteq> NANOCBOR_MASK_TSTR
            \<and> b AND NANOCBOR_TYPE_MASK \<noteq> NANOCBOR_MASK_ARR
            \<and> b AND NANOCBOR_TYPE_MASK \<noteq> NANOCBOR_MASK_MAP
            \<and> unat (b AND NANOCBOR_VALUE_MASK) < 24"
  have r: "nanocbor_skip fuel mem junk it =
      Some (1, it\<lparr>start := start it + int n + 1,
                  remaining := (if n = 0 \<or> flags it = NANOCBOR_DECODER_FLAG_CONTAINER
                                then remaining it - 1 else remaining it)\<rparr>)"
    unfolding nanocbor_skip_def using assms shallow by (intro skip_shallow [of mem it n b]) simp_all
  show "map_option fst (nanocbor_skip fuel mem junk it) = Some 1" by (simp add: r)
  show "map_option (\<lambda>r. start (snd r)) (nanocbor_skip fuel mem junk it)
          = Some (start it + int n + 1)"
    by (simp add: r)
qed

theorem skip_nested_arrays_witness:
  "map_option fst
     (nanocbor_skip 12 (buffer_at0 (replicate 11 0x81 @ [0x01]) zeroed) no_junk
        \<lparr>start = 0, endp = 12, remaining = 0, flags = 0\<rparr>) = Some NANOCBOR_ERR_RECURSION
   \<and> map_option fst
     (nanocbor_skip 12 (buffer_at0 (replicate 9 0x81 @ [0xF6]) zeroed) no_junk
        \<lparr>start = 0, endp = 10, remaining = 0, flags = 0\<rparr>) = Some 1
   \<and> map_option (\<lambda>r. start (snd r))
     (nanocbor_skip 12 (buffer_at0 (replicate 9 0x81 @ [0xF6]) zeroed) no_junk
        \<lparr>start = 0, endp = 10, remaining = 0, flags = 0\<rparr>) = Some 10"
proof -
  let ?m11 = "buffer_at0 (replicate 11 0x81 @ [0x01]) zeroed"
  let ?i11 = "\<lparr>start = 0, endp = 12, remaining = 0, flags = 0\<rparr>"
  let ?m9 = "buffer_at0 (replicate 9 0x81 @ [0xF6]) zeroed"
  let ?i9 = "\<lparr>start = 0, endp = 10, remaining = 0, flags = 0\<rparr>"
  have b11: "load_bytes ?m11 (start ?i11) (Suc 11) = replicate 11 0x81 @ [0x01]"
    by code_simp
  have b9: "load_bytes ?m9 (start ?i9) (Suc 9) = replicate 9 0x81 @ [0xF6]"
    by code_simp
  have f11: "(11::nat) < 12" and f9: "(9::nat) < 12" by simp_all
  have leaf: "(0xF6 :: 8 word) AND NANOCBOR_TYPE_MASK \<noteq> NANOCBOR_MASK_BSTR
      \<and> (0xF6 :: 8 word) AND NANOCBOR_TYPE_MASK \<noteq> NANOCBOR_MASK_TSTR
      \<and> (0xF6 :: 8 word) AND NANOCBOR_TYPE_MASK \<noteq> NANOCBOR_MASK_ARR
      \<and> (0xF6 :: 8 word) AND NANOCBOR_TYPE_MASK \<noteq> NANOCBOR_MASK_MAP
      \<and> unat ((0xF6 :: 8 word) AND NANOCBOR_VALUE_MASK) < 24"
    by (simp add: mask_defs)
  show ?thesis
    using skip_nested_arrays [of ?m11 ?i11 11 "0x01" 12 no_junk, OF b11 f11]
      skip_nested_arrays [of ?m9 ?i9 9 "0xF6" 12 no_junk, OF b9 f9] leaf
    by (simp add: NANOCBOR_RECURSION_MAX_def)
qed

text \<open>
  The amended statement is about arrays written as 0x81. An array header with a
  one-byte count (0x98 0x01) makes \<open>memcpy\<close> write only the low byte of the
  uninitialised \<open>recurse.remaining\<close>. The one-element array 0x98 0x01 0x01, followed in
  the store by the byte 0xFF, is skipped when the local held 0; when it held
  \<open>0xFFFFFFFF\<close> the loop goes on after the element and skip fails on the byte after
  the buffer.
\<close>

lemma skip_one_byte_count:
  "map_option fst
     (nanocbor_skip 4 (buffer_at0 [0x98, 0x01, 0x01, 0xFF] zeroed) no_junk
        \<lparr>start = 0, endp = 3, remaining = 0, flags = 0\<rparr>) = Some 1
   \<and> map_option fst
     (nanocbor_skip 4 (buffer_at0 [0x98, 0x01, 0x01, 0xFF] zeroed) ones_junk
        \<lparr>start = 0, endp = 3, remaining = 0, flags = 0\<rparr>) = Some NANOCBOR_ERR_OVERFLOW"
  by code_simp

text \<open>
  The thresholds of the claim are those of arrays whose innermost array is empty: eleven
  arrays fail, ten succeed.
\<close>

lemma skip_empty_innermost:
  "map_option fst
     (nanocbor_skip 12 (buffer_at0 (replicate 10 0x81 @ [0x80]) zeroed) no_junk
        \<lparr>start = 0, endp = 11, remaining = 0, flags = 0\<rparr>) = Some NANOCBOR_ERR_RECURSION
   \<and> map_option fst
     (nanocbor_skip 12 (buffer_at0 (replicate 9 0x81 @ [0x80]) zeroed) no_junk
        \<lparr>start = 0, endp = 10, remaining = 0, flags = 0\<rparr>) = Some NANOCBOR_OK"
  by code_simp

subsection \<open>Negative integers\<close>

text \<open>The word arithmetic of \<open>(-(int32_t)tmp) - 1\<close> and of the big-endian argument.\<close>

lemma sint_neg:
  assumes "(w :: 32 word) \<le> 0x7FFFFFFF"
  shows "sint (- w - 1) = - uint w - 1"
proof -
  have le: "uint w \<le> 0x7FFFFFFF" using assms by (simp add: word_le_def)
  have ge: "0 \<le> uint w" by simp
  have "- w - 1 = word_of_int (- uint w - 1)" by simp
  then have "sint (- w - 1) = signed_take_bit 31 (- uint w - 1)"
    by (simp only: sint_sbintrunc') simp
  also have "\<dots> = - uint w - 1"
  proof (rule signed_take_bit_int_eq_self)
    show "- (2 ^ 31) \<le> - uint w - 1" using le by simp
    have p: "(2::int) ^ 31 = 2147483648" by simp
    from ge show "- uint w - 1 < 2 ^ 31" unfolding p by arith
  qed
  finally show ?thesis .
qed


lemma be_nat_snoc: "be_nat (bs @ [b]) = be_nat bs * 256 + unat b"
  by (simp add: be_nat_def)

lemma be64toh_snoc: "be64toh (bs @ [b]) = push_bit 8 (be64toh bs) OR ucast b"
  by (simp add: be64toh_def)

lemma be_nat_bound: "be_nat bs < 256 ^ length bs"
proof (induction bs rule: rev_induct)
  case Nil
  then show ?case by (simp add: be_nat_def)
next
  case (snoc b bs)
  have "unat b < 256" using unsigned_less [of b] by simp
  with snoc show ?case by (simp add: be_nat_snoc)
qed

lemma shift_or_byte:
  assumes "unat (x :: 64 word) < 2 ^ 56"
  shows "unat (push_bit 8 x OR ucast (b :: 8 word)) = unat x * 256 + unat b"
proof -
  have b: "unat b < 2 ^ 8" using unsigned_less [of b] by simp
  have tb: "take_bit 8 (unat b) = unat b" using b by (rule take_bit_nat_eq_self)
  have "push_bit 8 (unat x) AND take_bit 8 (unat b) = 0"
    by (rule bit_eqI) (auto simp: bit_simps)
  then have disj: "push_bit 8 (unat x) AND unat b = 0" by (simp only: tb)
  have "unat x * 256 < 2 ^ 64" using assms by simp
  then have px: "unat (push_bit 8 x) = push_bit 8 (unat x)"
    by (simp add: unsigned_push_bit_eq take_bit_nat_eq_self push_bit_nat_def)
  have ub: "unat (ucast b :: 64 word) = unat b"
    using b by (simp add: unsigned_ucast_eq take_bit_nat_eq_self)
  have "unat (push_bit 8 x OR ucast b) = push_bit 8 (unat x) OR unat b"
    by (simp only: unsigned_or_eq px ub)
  also have "\<dots> = push_bit 8 (unat x) + unat b"
    using disj by (simp only: disjunctive_add_eq_or)
  finally show ?thesis by (simp add: push_bit_nat_def)
qed

lemma unat_be64toh:
  "length bs \<le> 8 \<Longrightarrow> unat (be64toh bs) = be_nat bs"
proof (induction bs rule: rev_induct)
  case Nil
  then show ?case by (simp add: be64toh_def be_nat_def)
next
  case (snoc b bs)
  then have len: "length bs \<le> 7" and ih: "unat (be64toh bs) = be_nat bs" by simp_all
  have "be_nat bs < 256 ^ length bs" by (rule be_nat_bound)
  also have "(256::nat) ^ length bs \<le> 256 ^ 7" using len by (intro power_increasing) simp_all
  finally have "unat (be64toh bs) < 2 ^ 56" using ih by simp
  then show ?case by (simp add: be64toh_snoc be_nat_snoc shift_or_byte ih)
qed

lemma be64toh_zeros: "be64toh (replicate k 0 @ bs) = be64toh bs"
proof -
  have "foldl (\<lambda>acc b. push_bit 8 acc OR ucast b) (0 :: 64 word) (replicate k (0 :: 8 word)) = 0"
    by (induction k) simp_all
  then show ?thesis by (simp add: be64toh_def)
qed


lemma ucast_memcpy_low_4: "(ucast (memcpy_low 4 t v) :: 32 word) = ucast t"
  unfolding memcpy_low_def by (rule bit_word_eqI) (simp add: bit_simps)

lemma unat_argument_4:
  assumes "length bs = 4"
  shows "unat (ucast (be64toh (replicate 4 0 @ bs)) :: 32 word) = be_nat bs"
proof -
  have u: "unat (be64toh bs) = be_nat bs" using assms by (intro unat_be64toh) simp
  have "be_nat bs < 256 ^ length bs" by (rule be_nat_bound)
  then have "be_nat bs < 2 ^ 32" using assms by simp
  then show ?thesis
    by (simp add: be64toh_zeros unsigned_ucast_eq u take_bit_nat_eq_self)
qed

lemma length_load_bytes: "length (load_bytes mem a n) = n"
  by (induction n arbitrary: a) simp_all

lemma get_uint64_arg4:
  assumes "get_type mem it = t" and "unat (mem (start it) AND NANOCBOR_VALUE_MASK) = 26"
    and "26 \<le> unat maxw" and "start it + 4 \<le> endp it"
  shows "get_uint64 mem it v maxw t =
    (5, memcpy_low 4 (be64toh (replicate 4 0 @ load_bytes mem (start it + 1) 4)) v)"
  using assms by (simp add: get_uint64_def Let_def)

lemma get_nint32_inline:
  assumes "get_type mem it = t" and "unat (mem (start it) AND NANOCBOR_VALUE_MASK) < 24"
  shows "fst (get_nint32 mem it v tmp t) = 1"
    and "sint (snd (get_nint32 mem it v tmp t)) = - int (unat (mem (start it) AND NANOCBOR_VALUE_MASK)) - 1"
proof -
  let ?s = "mem (start it) AND NANOCBOR_VALUE_MASK"
  let ?w = "ucast ?s :: 32 word"
  have g: "get_uint64 mem it (ucast tmp) NANOCBOR_INT_VAL_UINT32 t = (1, ucast ?s)"
    using assms by (simp add: get_uint64_inline)
  have c: "(ucast (ucast ?s :: 64 word) :: 32 word) = ?w"
    by (simp add: ucast_up_ucast is_up)
  have uw: "uint ?w = uint ?s" by (simp add: uint_up_ucast is_up)
  have "int (unat ?s) < int 24" using assms(2) by (simp only: of_nat_less_iff)
  then have "uint ?s < 24" by (simp only: uint_nat [symmetric] of_nat_numeral)
  then have "uint ?w < 24" by (simp only: uw)
  then have le: "?w \<le> INT32_MAX" by (simp add: word_le_def INT32_MAX_def)
  have r: "get_nint32 mem it v tmp t = (1, - ?w - 1)"
    using le by (simp add: get_nint32_def g c)
  show "fst (get_nint32 mem it v tmp t) = 1" by (simp add: r)
  have "sint (- ?w - 1) = - uint ?w - 1" using le by (intro sint_neg) (simp add: INT32_MAX_def)
  then show "sint (snd (get_nint32 mem it v tmp t)) = - int (unat ?s) - 1"
    by (simp add: r uw)
qed

lemma get_nint32_arg4:
  assumes "get_type mem it = t" and "unat (mem (start it) AND NANOCBOR_VALUE_MASK) = 26"
    and "start it + 4 \<le> endp it"
  shows "be_nat (load_bytes mem (start it + 1) 4) < 2 ^ 31 \<Longrightarrow>
           fst (get_nint32 mem it v tmp t) = 5 \<and>
           sint (snd (get_nint32 mem it v tmp t)) = - int (be_nat (load_bytes mem (start it + 1) 4)) - 1"
    and "2 ^ 31 \<le> be_nat (load_bytes mem (start it + 1) 4) \<Longrightarrow>
           get_nint32 mem it v tmp t = (NANOCBOR_ERR_OVERFLOW, v)"
proof -
  let ?bs = "load_bytes mem (start it + 1) 4"
  let ?w = "ucast (be64toh (replicate 4 0 @ ?bs)) :: 32 word"
  have g: "get_uint64 mem it (ucast tmp) NANOCBOR_INT_VAL_UINT32 t =
      (5, memcpy_low 4 (be64toh (replicate 4 0 @ ?bs)) (ucast tmp))"
    using assms by (intro get_uint64_arg4) (simp_all add: mask_defs)
  have m: "unat ?w = be_nat ?bs" by (rule unat_argument_4) (simp add: length_load_bytes)
  have r: "get_nint32 mem it v tmp t =
      (if ?w \<le> INT32_MAX then (5, - ?w - 1) else (NANOCBOR_ERR_OVERFLOW, v))"
    by (simp add: get_nint32_def g ucast_memcpy_low_4 del: load_bytes.simps replicate.simps)
  have le: "?w \<le> INT32_MAX \<longleftrightarrow> be_nat ?bs < 2 ^ 31"
    using m by (simp add: word_le_nat_alt INT32_MAX_def del: load_bytes.simps replicate.simps)
      arith
  {
    assume small: "be_nat ?bs < 2 ^ 31"
    then have w: "?w \<le> INT32_MAX" using le by simp
    then have "sint (- ?w - 1) = - uint ?w - 1" by (intro sint_neg) (simp add: INT32_MAX_def)
    then show "fst (get_nint32 mem it v tmp t) = 5 \<and>
           sint (snd (get_nint32 mem it v tmp t)) = - int (be_nat ?bs) - 1"
      using w m [symmetric] by (simp add: r del: load_bytes.simps replicate.simps)
  next
    assume "2 ^ 31 \<le> be_nat ?bs"
    then have "\<not> ?w \<le> INT32_MAX" using le by simp
    then show "get_nint32 mem it v tmp t = (NANOCBOR_ERR_OVERFLOW, v)"
      by (simp add: r del: load_bytes.simps replicate.simps)
  }
qed

lemma get_nint32_arg8:
  assumes "unat (mem (start it) AND NANOCBOR_VALUE_MASK) = 27"
  shows "fst (get_nint32 mem it v tmp t) < 0" "get_type mem it = t \<Longrightarrow> fst (get_nint32 mem it v tmp t) = NANOCBOR_ERR_OVERFLOW"
proof -
  have g: "get_uint64 mem it (ucast tmp) NANOCBOR_INT_VAL_UINT32 t =
     (if t \<noteq> get_type mem it then NANOCBOR_ERR_INVALID_TYPE else NANOCBOR_ERR_OVERFLOW, ucast tmp)"
    using assms by (intro get_uint64_wide) (simp_all add: mask_defs)
  show "fst (get_nint32 mem it v tmp t) < 0"
    by (simp add: get_nint32_def g err_defs Let_def)
  show "get_type mem it = t \<Longrightarrow> fst (get_nint32 mem it v tmp t) = NANOCBOR_ERR_OVERFLOW"
    by (auto simp add: get_nint32_def g err_defs Let_def)
qed

lemma get_int32_retry:
  assumes "get_type mem it = NANOCBOR_MASK_NINT"
  shows "get_uint64 mem it 0 NANOCBOR_INT_VAL_UINT32 NANOCBOR_MASK_UINT = (NANOCBOR_ERR_INVALID_TYPE, 0)"
    and "nanocbor_get_int32 mem it v tmp =
      (fst (get_nint32 mem it 0 tmp NANOCBOR_MASK_NINT),
       snd (advance_if it (fst (get_nint32 mem it 0 tmp NANOCBOR_MASK_NINT))),
       snd (get_nint32 mem it 0 tmp NANOCBOR_MASK_NINT))"
proof -
  show g: "get_uint64 mem it 0 NANOCBOR_INT_VAL_UINT32 NANOCBOR_MASK_UINT = (NANOCBOR_ERR_INVALID_TYPE, 0)"
    using assms by (intro get_uint64_mismatch) (simp add: mask_defs)
  show "nanocbor_get_int32 mem it v tmp =
      (fst (get_nint32 mem it 0 tmp NANOCBOR_MASK_NINT),
       snd (advance_if it (fst (get_nint32 mem it 0 tmp NANOCBOR_MASK_NINT))),
       snd (get_nint32 mem it 0 tmp NANOCBOR_MASK_NINT))"
    by (simp add: nanocbor_get_int32_def g advance_if_def split: prod.splits)
qed

text \<open>
  With a one-byte argument \<open>memcpy\<close> writes only the low byte of the uninitialised local
  \<open>tmp\<close> of \<open>_get_nint32\<close>: the encoding 0x38 0x05 of -6 reads as -6 when the local
  held 0 and fails with Overflow when it held \<open>0xFFFFFFFF\<close>.
\<close>

lemma get_int32_one_byte_argument:
  "sint (snd (snd (nanocbor_get_int32 (buffer_at0 [0x38, 0x05] zeroed)
                     \<lparr>start = 0, endp = 2, remaining = 0, flags = 0\<rparr> 0 0))) = - 6
   \<and> fst (nanocbor_get_int32 (buffer_at0 [0x38, 0x05] zeroed)
            \<lparr>start = 0, endp = 2, remaining = 0, flags = 0\<rparr> 0 0xFFFFFFFF)
       = NANOCBOR_ERR_OVERFLOW"
  by code_simp

text \<open>
  C8, as claimed: on every well-formed negative integer of magnitude \<open>m\<close>, getInt32
  returns \<open>-m - 1\<close> when that fits 32 signed bits. The item 0x3B 00 00 00 00 00 00 00 05
  is the negative integer of magnitude 5 with an eight-byte argument, and -6 fits: the
  call fails with Overflow, the selector 27 being above the maximal width selector 26.
\<close>

theorem get_int32_wide_counterexample:
  "be_nat (load_bytes (buffer_at0 [0x3B, 0, 0, 0, 0, 0, 0, 0, 5] zeroed) 1 8) = 5 \<and>
   fst (nanocbor_get_int32 (buffer_at0 [0x3B, 0, 0, 0, 0, 0, 0, 0, 5] zeroed)
          \<lparr>start = 0, endp = 9, remaining = 0, flags = 0\<rparr> 0 0) = NANOCBOR_ERR_OVERFLOW"
  by code_simp

text \<open>
  C8, amended. On an item of the negative-integer major type getInt32 first tries the
  unsigned major type, which fails on the type check, and then reads the item at the
  unchanged position with the negative major type. With an inline argument \<open>m\<close>
  (selector below 24), or a four-byte argument \<open>m\<close> (selector 26) that lies in the
  buffer, it returns \<open>-m - 1\<close> when \<open>m < 2^31\<close>, advancing by 1 or 5 bytes, and fails
  with Overflow, the cursor unchanged, when \<open>m \<ge> 2^31\<close>. With an eight-byte argument
  (selector 27) it fails with Overflow whatever the magnitude.
\<close>

theorem get_int32_negative:
  assumes "get_type mem it = NANOCBOR_MASK_NINT"
  shows "let r = nanocbor_get_int32 mem it v tmp;
             retry = get_nint32 mem it 0 tmp NANOCBOR_MASK_NINT;
             s = unat (mem (start it) AND NANOCBOR_VALUE_MASK);
             m = be_nat (load_bytes mem (start it + 1) 4)
         in fst (get_uint64 mem it 0 NANOCBOR_INT_VAL_UINT32 NANOCBOR_MASK_UINT)
              = NANOCBOR_ERR_INVALID_TYPE
          \<and> r = (fst retry, snd (advance_if it (fst retry)), snd retry)
          \<and> (s < 24 \<longrightarrow>
                fst r = 1 \<and> fst (snd r) = advance it 1 \<and> sint (snd (snd r)) = - int s - 1)
          \<and> (s = 26 \<and> start it + 5 \<le> endp it \<and> m < 2 ^ 31 \<longrightarrow>
                fst r = 5 \<and> fst (snd r) = advance it 5 \<and> sint (snd (snd r)) = - int m - 1)
          \<and> (s = 26 \<and> start it + 5 \<le> endp it \<and> 2 ^ 31 \<le> m \<longrightarrow>
                fst r = NANOCBOR_ERR_OVERFLOW \<and> fst (snd r) = it)
          \<and> (s = 27 \<longrightarrow> fst r = NANOCBOR_ERR_OVERFLOW \<and> fst (snd r) = it)"
proof -
  let ?r = "nanocbor_get_int32 mem it v tmp"
  let ?n = "get_nint32 mem it 0 tmp NANOCBOR_MASK_NINT"
  let ?s = "unat (mem (start it) AND NANOCBOR_VALUE_MASK)"
  let ?m = "be_nat (load_bytes mem (start it + 1) 4)"
  note retry = get_int32_retry [OF assms]
  have first: "fst (get_uint64 mem it 0 NANOCBOR_INT_VAL_UINT32 NANOCBOR_MASK_UINT)
      = NANOCBOR_ERR_INVALID_TYPE"
    by (simp add: retry(1))
  have r: "?r = (fst ?n, snd (advance_if it (fst ?n)), snd ?n)" by (rule retry(2))
  have inline: "fst ?r = 1 \<and> fst (snd ?r) = advance it 1 \<and> sint (snd (snd ?r)) = - int ?s - 1"
    if "?s < 24"
    using get_nint32_inline [OF assms that, of 0 tmp]
    by (simp add: r advance_if_def del: load_bytes.simps)
  have small: "fst ?r = 5 \<and> fst (snd ?r) = advance it 5 \<and> sint (snd (snd ?r)) = - int ?m - 1"
    if "?s = 26" "start it + 5 \<le> endp it" "?m < 2 ^ 31"
  proof -
    have "start it + 4 \<le> endp it" using that(2) by simp
    from get_nint32_arg4(1) [OF assms that(1) this that(3), of 0 tmp]
    show ?thesis by (simp add: r advance_if_def del: load_bytes.simps)
  qed
  have large: "fst ?r = NANOCBOR_ERR_OVERFLOW \<and> fst (snd ?r) = it"
    if "?s = 26" "start it + 5 \<le> endp it" "2 ^ 31 \<le> ?m"
  proof -
    have "start it + 4 \<le> endp it" using that(2) by simp
    from get_nint32_arg4(2) [OF assms that(1) this that(3), of 0 tmp]
    show ?thesis by (simp add: r advance_if_def err_defs del: load_bytes.simps)
  qed
  have wide: "fst ?r = NANOCBOR_ERR_OVERFLOW \<and> fst (snd ?r) = it" if "?s = 27"
    using get_nint32_arg8(2) [OF that assms, of 0 tmp]
    by (simp add: r advance_if_def err_defs del: load_bytes.simps)
  show ?thesis
    unfolding Let_def using first r inline small large wide by blast
qed

theorem get_int32_negative_witness:
  "fst (nanocbor_get_int32 (buffer_at0 [0x3A, 0, 0, 0, 5] zeroed)
          \<lparr>start = 0, endp = 5, remaining = 1, flags = 1\<rparr> 0 0) = 5
   \<and> sint (snd (snd (nanocbor_get_int32 (buffer_at0 [0x3A, 0, 0, 0, 5] zeroed)
          \<lparr>start = 0, endp = 5, remaining = 1, flags = 1\<rparr> 0 0))) = - 6
   \<and> fst (nanocbor_get_int32 (buffer_at0 [0x25] zeroed)
          \<lparr>start = 0, endp = 1, remaining = 1, flags = 1\<rparr> 0 0) = 1
   \<and> sint (snd (snd (nanocbor_get_int32 (buffer_at0 [0x25] zeroed)
          \<lparr>start = 0, endp = 1, remaining = 1, flags = 1\<rparr> 0 0))) = - 6"
proof -
  let ?m4 = "buffer_at0 [0x3A, 0, 0, 0, 5] zeroed"
  let ?i4 = "\<lparr>start = 0, endp = 5, remaining = 1, flags = 1\<rparr>"
  let ?m0 = "buffer_at0 [0x25] zeroed"
  let ?i0 = "\<lparr>start = 0, endp = 1, remaining = 1, flags = 1\<rparr>"
  have t4: "get_type ?m4 ?i4 = NANOCBOR_MASK_NINT"
    by (simp add: get_type_def buffer_at0_def mask_defs)
  have s4: "unat (?m4 (start ?i4) AND NANOCBOR_VALUE_MASK) = 26"
    by (simp add: buffer_at0_def mask_defs)
  have m4: "be_nat (load_bytes ?m4 (start ?i4 + 1) 4) = 5" by code_simp
  have t0: "get_type ?m0 ?i0 = NANOCBOR_MASK_NINT"
    by (simp add: get_type_def buffer_at0_def mask_defs)
  have s0: "unat (?m0 (start ?i0) AND NANOCBOR_VALUE_MASK) = 5"
    by (simp add: buffer_at0_def mask_defs)
  show ?thesis
    using get_int32_negative [of ?m4 ?i4 0 0, OF t4] get_int32_negative [of ?m0 ?i0 0 0, OF t0]
    unfolding Let_def s4 m4 s0 by auto
qed

end
